theory Spec2Isabelle
  imports Complex_Main
begin

section \<open>JSON values as the server sees them\<close>

text \<open>
  A JavaScript number as \<^verbatim>\<open>JSON.parse\<close> can return it: a finite value, one of the two
  infinities (the text \<^verbatim>\<open>1e400\<close> decodes to \<^verbatim>\<open>Infinity\<close>), or the negative zero
  (the text \<^verbatim>\<open>-0\<close>). The finite values are taken from the reals; the server never
  computes with them.
\<close>

datatype jsnum = Num real | PosInfinity | NegInfinity | NegZero

text \<open>
  The values \<^verbatim>\<open>JSON.parse\<close> can return: \<^verbatim>\<open>null\<close>, a boolean, a number, a string,
  an array, or an object with its keys in enumeration order.
\<close>

datatype json =
    JNull
  | JBool bool
  | JNumber jsnum
  | JString string
  | JArray "json list"
  | JObject "(string \<times> json) list"

text \<open>
  The two JavaScript primitives \<^verbatim>\<open>categorizeData\<close> tests its argument with.
  \<^verbatim>\<open>typeof\<close> answers \<^verbatim>\<open>'object'\<close> for objects, for arrays and for \<^verbatim>\<open>null\<close>.
\<close>

fun typeof :: "json \<Rightarrow> string" where
  "typeof JNull = ''object''"
| "typeof (JBool b) = ''boolean''"
| "typeof (JNumber n) = ''number''"
| "typeof (JString s) = ''string''"
| "typeof (JArray xs) = ''object''"
| "typeof (JObject kvs) = ''object''"

fun isArray :: "json \<Rightarrow> bool" where
  "isArray (JArray xs) = True"
| "isArray v = False"

text \<open>
  \<^verbatim>\<open>JSON.stringify\<close>, up to the text: the value that the text it returns denotes to
  the client who decodes it. A number that is not finite is written as \<^verbatim>\<open>null\<close>, the
  negative zero as \<^verbatim>\<open>0\<close>; everything else is written as it is.
\<close>

fun stringify_number :: "jsnum \<Rightarrow> json" where
  "stringify_number (Num r) = JNumber (Num r)"
| "stringify_number PosInfinity = JNull"
| "stringify_number NegInfinity = JNull"
| "stringify_number NegZero = JNumber (Num 0)"

primrec stringify :: "json \<Rightarrow> json" where
  "stringify JNull = JNull"
| "stringify (JBool b) = JBool b"
| "stringify (JNumber n) = stringify_number n"
| "stringify (JString s) = JString s"
| "stringify (JArray xs) = JArray (map stringify xs)"
| "stringify (JObject kvs) = JObject (map (map_prod id stringify) kvs)"

text \<open>The values that hold no infinity and no negative zero, at any depth.\<close>

fun plain_number :: "jsnum \<Rightarrow> bool" where
  "plain_number (Num r) = True"
| "plain_number n = False"

primrec plain :: "json \<Rightarrow> bool" where
  "plain JNull = True"
| "plain (JBool b) = True"
| "plain (JNumber n) = plain_number n"
| "plain (JString s) = True"
| "plain (JArray xs) = list_all id (map plain xs)"
| "plain (JObject kvs) = list_all snd (map (map_prod id plain) kvs)"

text \<open>Property access on an envelope: the value stored under a key, if any.\<close>

fun field :: "string \<Rightarrow> json \<Rightarrow> json option" where
  "field k (JObject kvs) = map_of kvs k"
| "field k v = None"

section \<open>Constants and the in-memory store\<close>

definition LOOPBACK_HOST :: string where
  "LOOPBACK_HOST = ''127.0.0.1''"

definition PORT :: nat where
  "PORT = 3000"

definition MAX_BODY_SIZE :: nat where
  "MAX_BODY_SIZE = 1024 * 1024"

record stats =
  totalRequests :: nat
  textItems :: nat
  numericItems :: nat
  objectItems :: nat

record item =
  item_id :: nat
  item_type :: string
  item_data :: json
  item_timestamp :: string

record dataStore =
  items :: "item list"
  stats :: stats

definition dataStore_init :: dataStore where
  "dataStore_init =
     \<lparr> items = [],
       stats = \<lparr> totalRequests = 0, textItems = 0, numericItems = 0, objectItems = 0 \<rparr> \<rparr>"

section \<open>Classification\<close>

definition categorizeData :: "json \<Rightarrow> string" where
  "categorizeData data =
     (if typeof data = ''string'' then ''text''
      else if typeof data = ''number'' then ''numeric''
      else if isArray data then ''array''
      else if typeof data = ''object'' then ''object''
      else ''unknown'')"

section \<open>The response object and the connection\<close>

type_synonym headers = "(string \<times> string) list"

text \<open>
  What the process does to the outside world, in order: binding the listening socket,
  and, per request, the calls made on \<^verbatim>\<open>res\<close> and on the connection. The payload of
  \<open>End\<close> is the body that goes out, as the value its text denotes, or \<open>None\<close> for an
  empty body. Console output is not modelled.
\<close>

datatype effect =
    Listen nat string
  | SetHeader string string
  | WriteHead nat headers
  | End "json option"
  | Destroy

datatype error = ERR_HTTP_HEADERS_SENT | SyntaxError string

fun message :: "error \<Rightarrow> string" where
  "message ERR_HTTP_HEADERS_SENT = ''Cannot write headers after they are sent to the client''"
| "message (SyntaxError m) = m"

text \<open>
  The state of one request/response exchange: the \<^verbatim>\<open>body\<close> variable of the POST
  branch, whether the response may carry a body (the runtime creates the response of a
  HEAD request without one), whether the response head has been written, whether the
  response has been ended, whether the connection has been destroyed, and the effects so
  far.
\<close>

record exchange =
  body :: string
  hasBody :: bool
  headWritten :: bool
  finished :: bool
  destroyed :: bool
  trace :: "effect list"

definition fresh :: "string \<Rightarrow> exchange" where
  "fresh m = \<lparr> body = [], hasBody = (m \<noteq> ''HEAD''), headWritten = False, finished = False,
               destroyed = False, trace = [] \<rparr>"

text \<open>\<^verbatim>\<open>res.setHeader\<close>; the handler calls it on a response it has not yet written to.\<close>

definition setHeader :: "string \<Rightarrow> string \<Rightarrow> exchange \<Rightarrow> exchange" where
  "setHeader k v x = x\<lparr>trace := trace x @ [SetHeader k v]\<rparr>"

text \<open>\<^verbatim>\<open>res.writeHead\<close> throws once the head has been written.\<close>

definition writeHead :: "nat \<Rightarrow> headers \<Rightarrow> exchange \<Rightarrow> error + exchange" where
  "writeHead code hs x =
     (if headWritten x then Inl ERR_HTTP_HEADERS_SENT
      else Inr (x\<lparr>headWritten := True, trace := trace x @ [WriteHead code hs]\<rparr>))"

text \<open>
  \<^verbatim>\<open>res.end\<close> completes the response; on a completed response it does nothing. The
  data it is given is dropped when the response may not carry a body.
\<close>

definition end_res :: "json option \<Rightarrow> exchange \<Rightarrow> exchange" where
  "end_res payload x =
     (if finished x then x
      else x\<lparr>headWritten := True, finished := True,
             trace := trace x @ [End (if hasBody x then payload else None)]\<rparr>)"

definition destroy :: "exchange \<Rightarrow> exchange" where
  "destroy x = x\<lparr>destroyed := True, trace := trace x @ [Destroy]\<rparr>"

definition json_header :: headers where
  "json_header = [(''Content-Type'', ''application/json'')]"

text \<open>
  The outcome of running handler code: the exception that was thrown and not caught, if
  any, with the store and the exchange as they are at that point.
\<close>

type_synonym outcome = "error option \<times> dataStore \<times> exchange"

text \<open>
  The pair of calls \<^verbatim>\<open>res.writeHead(code, headers); res.end(JSON.stringify(v))\<close>, which
  every responding branch makes; \<open>payload\<close> is \<open>None\<close> for \<^verbatim>\<open>res.end()\<close>.
\<close>

definition respond :: "nat \<Rightarrow> headers \<Rightarrow> json option \<Rightarrow> dataStore \<times> exchange \<Rightarrow> outcome" where
  "respond code hs payload sx =
     (case sx of (st, x) \<Rightarrow>
        (case writeHead code hs x of
           Inl e \<Rightarrow> (Some e, st, x)
         | Inr x1 \<Rightarrow> (None, st, end_res (map_option stringify payload) x1)))"

section \<open>The store as JSON\<close>

definition json_of_item :: "item \<Rightarrow> json" where
  "json_of_item it =
     JObject [(''id'', JNumber (Num (real (item_id it)))),
              (''type'', JString (item_type it)),
              (''data'', item_data it),
              (''timestamp'', JString (item_timestamp it))]"

definition json_of_stats :: "stats \<Rightarrow> json" where
  "json_of_stats s =
     JObject [(''totalRequests'', JNumber (Num (real (totalRequests s)))),
              (''textItems'', JNumber (Num (real (textItems s)))),
              (''numericItems'', JNumber (Num (real (numericItems s)))),
              (''objectItems'', JNumber (Num (real (objectItems s))))]"

definition json_of_dataStore :: "dataStore \<Rightarrow> json" where
  "json_of_dataStore st =
     JObject [(''items'', JArray (map json_of_item (items st))),
              (''stats'', json_of_stats (stats st))]"

section \<open>The request handler\<close>

text \<open>
  The events a request emits for the listeners of the POST branch: a chunk of the body
  (already decoded by \<^verbatim>\<open>chunk.toString()\<close>), or the end of the body.
\<close>

datatype event = DataEv string | EndEv

text \<open>
  A request as the runtime presents it: the method (\<open>req_method\<close>), the URL, the events
  it goes on to emit, in order, and the reading of the clock when \<^verbatim>\<open>'end'\<close> is
  handled. Which events a request emits is the runtime's business: a body that arrives
  whole emits its chunks and then \<open>EndEv\<close>, an aborted one stops before, and nothing
  in the handler keeps events from arriving after it has answered or destroyed the
  connection. The list is therefore not constrained here.
\<close>

record request =
  req_method :: string
  url :: string
  events :: "event list"
  now :: string

definition bump :: "dataStore \<Rightarrow> dataStore" where
  "bump st = st\<lparr>stats := (stats st)\<lparr>totalRequests := totalRequests (stats st) + 1\<rparr>\<rparr>"

text \<open>
  The callback given to \<^verbatim>\<open>http.createServer\<close>. The Boolean of the result says whether
  the \<^verbatim>\<open>'data'\<close> and \<^verbatim>\<open>'end'\<close> listeners were registered (the POST branch).
\<close>

definition requestListener :: "request \<Rightarrow> dataStore \<Rightarrow> outcome \<times> bool" where
  "requestListener req st =
     (let st1 = bump st;
          x = setHeader ''Access-Control-Allow-Headers'' ''Content-Type''
                (setHeader ''Access-Control-Allow-Methods'' ''GET, POST, OPTIONS''
                  (setHeader ''Access-Control-Allow-Origin'' ''http://127.0.0.1''
                    (fresh (req_method req))))
      in if req_method req = ''OPTIONS'' then
           (respond 200 [] None (st1, x), False)
         else if req_method req = ''GET'' \<and> url req = ''/json'' then
           (respond 200 json_header
              (Some (JObject [(''status'', JString ''success''),
                              (''loopback_interface'', JString LOOPBACK_HOST),
                              (''port'', JNumber (Num (real PORT))),
                              (''data'', json_of_dataStore st1)]))
              (st1, x),
            False)
         else if req_method req = ''POST'' \<and> url req = ''/json'' then
           ((None, st1, x), True)
         else
           (respond 404 json_header
              (Some (JObject [(''status'', JString ''error''),
                              (''message'', JString ''Endpoint not found'')]))
              (st1, x),
            False))"

text \<open>
  The \<^verbatim>\<open>'data'\<close> listener of the POST branch. It does not touch the store. An
  exception of \<^verbatim>\<open>writeHead\<close> is not caught.
\<close>

definition on_data :: "string \<Rightarrow> dataStore \<times> exchange \<Rightarrow> outcome" where
  "on_data chunk sx =
     (case sx of (st, x) \<Rightarrow>
        (let x1 = x\<lparr>body := body x @ chunk\<rparr>
         in if length (body x1) > MAX_BODY_SIZE then
              (case respond 413 json_header
                      (Some (JObject [(''status'', JString ''error''),
                                      (''message'', JString ''Request body too large (max 1MB)'')]))
                      (st, x1) of
                 (Some e, st2, x2) \<Rightarrow> (Some e, st2, x2)
               | (None, st2, x2) \<Rightarrow> (None, st2, destroy x2))
            else (None, st, x1)))"

text \<open>The \<^verbatim>\<open>catch\<close> block of the \<^verbatim>\<open>'end'\<close> listener; what it throws is not caught.\<close>

definition on_end_catch :: "error \<Rightarrow> dataStore \<times> exchange \<Rightarrow> outcome" where
  "on_end_catch e sx =
     respond 400 json_header
       (Some (JObject [(''status'', JString ''error''),
                       (''message'', JString ''Invalid JSON''),
                       (''error'', JString (message e))]))
       sx"

text \<open>
  The \<^verbatim>\<open>'end'\<close> listener. \<^verbatim>\<open>JSON.parse\<close> is a parameter: \<open>Inl m\<close> is a
  \<^verbatim>\<open>SyntaxError\<close> with message \<open>m\<close>. The store is updated before the response is
  written, so an exception of \<^verbatim>\<open>writeHead\<close> reaches the \<^verbatim>\<open>catch\<close> block with the
  item already stored. The listener looks neither at the size of the body nor at the
  state of the response before it runs.
\<close>

definition on_end ::
  "(string \<Rightarrow> string + json) \<Rightarrow> string \<Rightarrow> dataStore \<times> exchange \<Rightarrow> outcome" where
  "on_end parse timestamp sx =
     (case sx of (st, x) \<Rightarrow>
        (case parse (body x) of
           Inl m \<Rightarrow> on_end_catch (SyntaxError m) (st, x)
         | Inr jsonData \<Rightarrow>
             (let dataType = categorizeData jsonData;
                  it = \<lparr> item_id = length (items st) + 1, item_type = dataType,
                         item_data = jsonData, item_timestamp = timestamp \<rparr>;
                  st1 = st\<lparr>items := items st @ [it]\<rparr>;
                  st2 = (if dataType = ''text'' then
                           st1\<lparr>stats := (stats st1)\<lparr>textItems := textItems (stats st1) + 1\<rparr>\<rparr>
                         else if dataType = ''numeric'' then
                           st1\<lparr>stats := (stats st1)\<lparr>numericItems := numericItems (stats st1) + 1\<rparr>\<rparr>
                         else if dataType = ''object'' then
                           st1\<lparr>stats := (stats st1)\<lparr>objectItems := objectItems (stats st1) + 1\<rparr>\<rparr>
                         else st1)
              in (case writeHead 201 json_header x of
                    Inl e \<Rightarrow> on_end_catch e (st2, x)
                  | Inr x1 \<Rightarrow>
                      (None, st2,
                       end_res
                         (Some (stringify
                            (JObject [(''status'', JString ''success''),
                                      (''message'', JString ''JSON data stored via loopback interface''),
                                      (''item'', json_of_item it)])))
                         x1)))))"

section \<open>Event delivery\<close>

text \<open>
  The runtime hands every event of the request to its listener, in order. An exception
  that a listener does not catch ends the process, and with it the delivery.
\<close>

fun deliver ::
  "(string \<Rightarrow> string + json) \<Rightarrow> string \<Rightarrow> event list \<Rightarrow> dataStore \<times> exchange \<Rightarrow> outcome" where
  "deliver parse timestamp [] sx = (None, sx)"
| "deliver parse timestamp (DataEv c # evs) sx =
     (case on_data c sx of
        (Some e, sx1) \<Rightarrow> (Some e, sx1)
      | (None, sx1) \<Rightarrow> deliver parse timestamp evs sx1)"
| "deliver parse timestamp (EndEv # evs) sx =
     (case on_end parse timestamp sx of
        (Some e, sx1) \<Rightarrow> (Some e, sx1)
      | (None, sx1) \<Rightarrow> deliver parse timestamp evs sx1)"

text \<open>One request, from its arrival to its last event or to the uncaught exception.\<close>

definition serve :: "(string \<Rightarrow> string + json) \<Rightarrow> request \<Rightarrow> dataStore \<Rightarrow> outcome" where
  "serve parse req st =
     (case requestListener req st of
        ((Some e, sx), listening) \<Rightarrow> (Some e, sx)
      | ((None, sx), listening) \<Rightarrow>
          if listening then deliver parse (now req) (events req) sx else (None, sx))"

text \<open>
  Requests one after the other on the same store. After an uncaught exception the
  process is gone and the remaining requests are not served; the store of the result is
  then the store at the exception.
\<close>

fun serve_all ::
  "(string \<Rightarrow> string + json) \<Rightarrow> request list \<Rightarrow> dataStore \<Rightarrow> error option \<times> dataStore" where
  "serve_all parse [] st = (None, st)"
| "serve_all parse (r # rs) st =
     (case serve parse r st of
        (Some e, st1, x) \<Rightarrow> (Some e, st1)
      | (None, st1, x) \<Rightarrow> serve_all parse rs st1)"

text \<open>The script's top level: the one call that binds a socket.\<close>

definition main_script :: "effect list" where
  "main_script = [Listen PORT LOOPBACK_HOST]"

section \<open>Reading a trace\<close>

fun payloads :: "effect list \<Rightarrow> json option list" where
  "payloads [] = []"
| "payloads (End p # es) = p # payloads es"
| "payloads (e # es) = payloads es"

fun statuses :: "effect list \<Rightarrow> nat list" where
  "statuses [] = []"
| "statuses (WriteHead c hs # es) = c # statuses es"
| "statuses (e # es) = statuses es"

fun listen_hosts :: "effect list \<Rightarrow> string list" where
  "listen_hosts [] = []"
| "listen_hosts (Listen p h # es) = h # listen_hosts es"
| "listen_hosts (e # es) = listen_hosts es"

text \<open>The envelopes among the payloads of a trace: the responses with a JSON body.\<close>

fun envelopes :: "effect list \<Rightarrow> json list" where
  "envelopes [] = []"
| "envelopes (End (Some v) # es) = v # envelopes es"
| "envelopes (e # es) = envelopes es"

text \<open>The chunks among the events of a request.\<close>

fun data_of :: "event list \<Rightarrow> string list" where
  "data_of [] = []"
| "data_of (DataEv c # evs) = c # data_of evs"
| "data_of (EndEv # evs) = data_of evs"

section \<open>Auxiliary definitions for the statements below\<close>

text \<open>The response as the POST branch leaves it for its listeners: the three headers set.\<close>

definition cors :: "string \<Rightarrow> exchange" where
  "cors m = setHeader ''Access-Control-Allow-Headers'' ''Content-Type''
              (setHeader ''Access-Control-Allow-Methods'' ''GET, POST, OPTIONS''
                (setHeader ''Access-Control-Allow-Origin'' ''http://127.0.0.1'' (fresh m)))"

text \<open>
  The state of an exchange on the POST branch: the response is completed exactly when
  its head is written, and then one head, one body and one envelope have gone out; as
  long as it is not written, the accumulated body is within the limit.
\<close>

definition coherent :: "exchange \<Rightarrow> bool" where
  "coherent x =
     (hasBody x \<and> finished x = headWritten x \<and>
      (headWritten x \<or> length (body x) \<le> MAX_BODY_SIZE) \<and>
      length (statuses (trace x)) = (if headWritten x then 1 else 0) \<and>
      length (payloads (trace x)) = (if headWritten x then 1 else 0) \<and>
      length (envelopes (trace x)) = (if headWritten x then 1 else 0) \<and>
      listen_hosts (trace x) = [])"

text \<open>The sum of the three type counters, and the items that one of them counts.\<close>

definition typed_total :: "stats \<Rightarrow> nat" where
  "typed_total s = textItems s + numericItems s + objectItems s"

definition counted :: "item \<Rightarrow> bool" where
  "counted it = (item_type it = ''text'' \<or> item_type it = ''numeric'' \<or> item_type it = ''object'')"

text \<open>
  A finite table of \<^verbatim>\<open>JSON.parse\<close>, for the concrete examples: it agrees with the
  builtin on the bodies listed (the last is \<^verbatim>\<open>42\<close> followed by 1048575 spaces,
  which the builtin skips), and on the two other bodies the examples use, which are not
  JSON: \<^verbatim>\<open>not json\<close>, alone or followed by spaces.
\<close>

definition parse_table :: "string \<Rightarrow> string + json" where
  \<open>parse_table s =
     (if s = ''"hello"'' then Inr (JString ''hello'')
      else if s = ''42'' then Inr (JNumber (Num 42))
      else if s = ''[1,2,3]'' then Inr (JArray [JNumber (Num 1), JNumber (Num 2), JNumber (Num 3)])
      else if s = ''{"value": 42}'' then Inr (JObject [(''value'', JNumber (Num 42))])
      else if s = ''null'' then Inr JNull
      else if s = ''true'' then Inr (JBool True)
      else if s = ''1e400'' then Inr (JNumber PosInfinity)
      else if s = ''-0'' then Inr (JNumber NegZero)
      else if s = ''42'' @ replicate 1048575 (CHR '' '') then Inr (JNumber (Num 42))
      else Inl ''Unexpected token o in JSON at position 1'')\<close>

text \<open>Example requests. The clock reading is arbitrary.\<close>

definition req_options :: request where
  "req_options = \<lparr> req_method = ''OPTIONS'', url = ''/json'', events = [EndEv],
                   now = ''2026-01-01T00:00:00.000Z'' \<rparr>"

definition req_head :: request where
  "req_head = \<lparr> req_method = ''HEAD'', url = ''/json'', events = [EndEv],
                now = ''2026-01-01T00:00:00.000Z'' \<rparr>"

definition req_get :: request where
  "req_get = \<lparr> req_method = ''GET'', url = ''/json'', events = [EndEv],
               now = ''2026-01-01T00:00:00.000Z'' \<rparr>"

definition req_post :: "event list \<Rightarrow> request" where
  "req_post evs = \<lparr> req_method = ''POST'', url = ''/json'', events = evs,
                    now = ''2026-01-01T00:00:00.000Z'' \<rparr>"

section \<open>Serialisation\<close>

text \<open>A value without infinities and negative zeros is sent as it is.\<close>

lemma stringify_plain: "plain v \<Longrightarrow> stringify v = v"
proof (induction v)
  case (JNumber n)
  then show ?case by (cases n) simp_all
next
  case (JArray xs)
  then show ?case by (auto simp: list_all_iff intro!: map_idI)
next
  case (JObject kvs)
  then show ?case by (auto simp: list_all_iff intro!: map_idI)
qed simp_all

section \<open>Traces and the response object\<close>

lemma payloads_append: "payloads (es @ fs) = payloads es @ payloads fs"
  by (induction es rule: payloads.induct) simp_all

lemma statuses_append: "statuses (es @ fs) = statuses es @ statuses fs"
  by (induction es rule: statuses.induct) simp_all

lemma listen_hosts_append: "listen_hosts (es @ fs) = listen_hosts es @ listen_hosts fs"
  by (induction es rule: listen_hosts.induct) simp_all

lemma envelopes_append: "envelopes (es @ fs) = envelopes es @ envelopes fs"
  by (induction es rule: envelopes.induct) simp_all

lemmas trace_simps = payloads_append statuses_append listen_hosts_append envelopes_append

lemmas res_defs = setHeader_def writeHead_def end_res_def destroy_def fresh_def respond_def

lemma cors_simps:
  "body (cors m) = []" "hasBody (cors m) = (m \<noteq> ''HEAD'')" "\<not> headWritten (cors m)"
  "\<not> finished (cors m)" "\<not> destroyed (cors m)"
  "statuses (trace (cors m)) = []" "payloads (trace (cors m)) = []"
  "envelopes (trace (cors m)) = []" "listen_hosts (trace (cors m)) = []"
  by (simp_all add: cors_def setHeader_def fresh_def)

lemma coherent_cors: "m \<noteq> ''HEAD'' \<Longrightarrow> coherent (cors m)"
  by (simp add: coherent_def cors_simps)

text \<open>What \<open>respond\<close> does to a response that is not yet written, and to one that is.\<close>

lemma respond_unwritten:
  "\<not> headWritten x \<Longrightarrow> \<not> finished x \<Longrightarrow>
   respond code hs payload (st, x) =
     (None, st,
      x\<lparr>headWritten := True, finished := True,
        trace := trace x @ [WriteHead code hs,
                            End (if hasBody x then map_option stringify payload else None)]\<rparr>)"
  by (simp add: respond_def writeHead_def end_res_def)

lemma respond_written:
  "headWritten x \<Longrightarrow> respond code hs payload (st, x) = (Some ERR_HTTP_HEADERS_SENT, st, x)"
  by (simp add: respond_def writeHead_def)

section \<open>The listeners, one event at a time\<close>

lemma on_data_coherent:
  assumes "coherent x" "on_data c (st, x) = (e, st', x')"
  shows "coherent x' \<and> st' = st \<and> body x' = body x @ c \<and>
         (headWritten x \<longrightarrow> headWritten x') \<and>
         (MAX_BODY_SIZE < length (body x @ c) \<longrightarrow> headWritten x') \<and>
         (length (body x @ c) \<le> MAX_BODY_SIZE \<longrightarrow> e = None \<and> x' = x\<lparr>body := body x @ c\<rparr>)"
proof (cases "headWritten x")
  case True
  with assms show ?thesis
    by (auto simp: on_data_def Let_def respond_written coherent_def split: if_splits)
next
  case False
  with assms(1) have "\<not> finished x" by (simp add: coherent_def)
  with False assms show ?thesis
    by (auto simp: on_data_def Let_def respond_unwritten coherent_def destroy_def trace_simps
        split: if_splits)
qed


lemma on_data_store: "on_data c (st, x) = (e, st', x') \<Longrightarrow> st' = st"
  by (auto simp: on_data_def Let_def respond_def split: if_splits sum.splits)

lemma on_end_invalid:
  assumes "\<not> headWritten x" "\<not> finished x" "hasBody x" "parse (body x) = Inl m"
  shows "on_end parse ts (st, x) =
     (None, st,
      x\<lparr>headWritten := True, finished := True,
        trace := trace x @
          [WriteHead 400 json_header,
           End (Some (JObject [(''status'', JString ''error''),
                               (''message'', JString ''Invalid JSON''),
                               (''error'', JString m)]))]\<rparr>)"
  using assms by (simp add: on_end_def on_end_catch_def respond_unwritten)

lemma on_end_valid:
  assumes "\<not> headWritten x" "\<not> finished x" "hasBody x" "parse (body x) = Inr v"
  shows "\<exists>st'. on_end parse ts (st, x) =
     (None, st',
      x\<lparr>headWritten := True, finished := True,
        trace := trace x @
          [WriteHead 201 json_header,
           End (Some (JObject [(''status'', JString ''success''),
                               (''message'', JString ''JSON data stored via loopback interface''),
                               (''item'', JObject [(''id'', JNumber (Num (real (length (items st) + 1)))),
                                                   (''type'', JString (categorizeData v)),
                                                   (''data'', stringify v),
                                                   (''timestamp'', JString ts)])]))]\<rparr>) \<and>
     items st' = items st @
       [\<lparr> item_id = length (items st) + 1, item_type = categorizeData v,
          item_data = v, item_timestamp = ts \<rparr>] \<and>
     totalRequests (stats st') = totalRequests (stats st)"
  using assms
  by (simp add: on_end_def Let_def writeHead_def end_res_def json_of_item_def)

text \<open>
  The \<^verbatim>\<open>'end'\<close> listener on a response that is already written: the item is stored
  if the body parses, and in either case \<^verbatim>\<open>writeHead\<close> throws out of the
  \<^verbatim>\<open>catch\<close> block.
\<close>

lemma on_end_written:
  assumes "headWritten x"
  shows "\<exists>st'. on_end parse ts (st, x) = (Some ERR_HTTP_HEADERS_SENT, st', x) \<and>
     (case parse (body x) of
        Inl m \<Rightarrow> st' = st
      | Inr v \<Rightarrow> items st' = items st @
          [\<lparr> item_id = length (items st) + 1, item_type = categorizeData v,
             item_data = v, item_timestamp = ts \<rparr>])"
  using assms
  by (simp add: on_end_def on_end_catch_def Let_def writeHead_def respond_written
      split: sum.splits)

lemma on_end_counts:
  assumes "typed_total (stats st) = length (filter counted (items st))"
    and "on_end parse ts (st, x) = (e, st', x')"
  shows "typed_total (stats st') = length (filter counted (items st'))"
  using assms
  by (auto simp: on_end_def on_end_catch_def Let_def respond_def typed_total_def counted_def
      split: sum.splits if_splits)

lemma on_end_coherent:
  assumes "coherent x" "on_end parse ts (st, x) = (e, st', x')"
  shows "coherent x' \<and> headWritten x' \<and> body x' = body x"
proof (cases "headWritten x")
  case True
  from on_end_written [OF True, of parse ts st] assms True show ?thesis by (auto simp: coherent_def)
next
  case False
  with assms(1) have nf: "\<not> finished x" and hb: "hasBody x" by (simp_all add: coherent_def)
  show ?thesis
  proof (cases "parse (body x)")
    case (Inl m)
    from on_end_invalid [where parse = parse and ts = ts and st = st, OF False nf hb Inl] assms False show ?thesis
      by (auto simp: coherent_def trace_simps)
  next
    case (Inr v)
    from on_end_valid [where parse = parse and ts = ts and st = st, OF False nf hb Inr] assms False show ?thesis
      by (auto simp: coherent_def trace_simps)
  qed
qed

section \<open>Delivery of the events\<close>

text \<open>
  Whatever the events and wherever the delivery stops: the state of the exchange stays
  coherent, a written response stays written, an \<^verbatim>\<open>'end'\<close> event or a body over the
  limit gets the response written, and the counters stay in step with the items.
\<close>

lemma deliver_coherent:
  assumes "coherent x" "deliver parse ts evs (st, x) = (e, st', x')"
  shows "coherent x' \<and> (headWritten x \<longrightarrow> headWritten x') \<and>
         ((EndEv \<in> set evs \<or> MAX_BODY_SIZE < length (body x) + length (concat (data_of evs)))
            \<longrightarrow> headWritten x') \<and>
         (\<not> headWritten x \<and> EndEv \<notin> set evs \<and>
          length (body x) + length (concat (data_of evs)) \<le> MAX_BODY_SIZE
            \<longrightarrow> \<not> headWritten x' \<and> e = None \<and> st' = st) \<and>
         (typed_total (stats st) = length (filter counted (items st)) \<longrightarrow>
          typed_total (stats st') = length (filter counted (items st')))"
  using assms
proof (induction evs arbitrary: st x)
  case Nil
  then show ?case by (auto simp: coherent_def)
next
  case (Cons ev evs)
  show ?case
  proof (cases ev)
    case (DataEv c)
    obtain e1 st1 x1 where step: "on_data c (st, x) = (e1, st1, x1)"
      by (cases "on_data c (st, x)") auto
    note d = on_data_coherent [OF Cons.prems(1) step]
    show ?thesis
    proof (cases e1)
      case None
      with step DataEv Cons.prems(2) have rest: "deliver parse ts evs (st1, x1) = (e, st', x')"
        by simp
      from d have "coherent x1" by simp
      from Cons.IH [OF this rest] d DataEv show ?thesis by auto
    next
      case (Some err)
      with step DataEv Cons.prems(2) have "e = Some err" "st' = st1" "x' = x1" by simp_all
      with d DataEv \<open>e1 = Some err\<close> show ?thesis by auto
    qed
  next
    case EndEv
    obtain e1 st1 x1 where step: "on_end parse ts (st, x) = (e1, st1, x1)"
      by (cases "on_end parse ts (st, x)") auto
    note d = on_end_coherent [OF Cons.prems(1) step]
    note k = on_end_counts [OF _ step]
    show ?thesis
    proof (cases e1)
      case None
      with step EndEv Cons.prems(2) have rest: "deliver parse ts evs (st1, x1) = (e, st', x')"
        by simp
      from d have "coherent x1" by simp
      from Cons.IH [OF this rest] d k EndEv show ?thesis by auto
    next
      case (Some err)
      with step EndEv Cons.prems(2) have "e = Some err" "st' = st1" "x' = x1" by simp_all
      with d k EndEv \<open>e1 = Some err\<close> show ?thesis by auto
    qed
  qed
qed


lemma deliver_small:
  "\<not> headWritten x \<Longrightarrow> length (body x) + length (concat cs) \<le> MAX_BODY_SIZE \<Longrightarrow>
   deliver parse ts (map DataEv cs @ evs) (st, x) =
     deliver parse ts evs (st, x\<lparr>body := body x @ concat cs\<rparr>)"
  by (induction cs arbitrary: x) (simp_all add: on_data_def Let_def)

section \<open>Serving a request\<close>

lemma bump_counts:
  "typed_total (stats (bump st)) = typed_total (stats st)" "items (bump st) = items st"
  by (simp_all add: bump_def typed_total_def)

lemma serve_OPTIONS:
  assumes "req_method req = ''OPTIONS''"
  shows "\<exists>x. serve parse req st = (None, bump st, x) \<and> statuses (trace x) = [200] \<and>
             payloads (trace x) = [None] \<and> envelopes (trace x) = [] \<and>
             listen_hosts (trace x) = []"
  using assms by (simp add: serve_def requestListener_def Let_def res_defs)

lemma serve_GET:
  assumes "req_method req = ''GET''" "url req = ''/json''"
  shows "\<exists>x. serve parse req st = (None, bump st, x) \<and> statuses (trace x) = [200] \<and>
             payloads (trace x) =
               [Some (stringify (JObject [(''status'', JString ''success''),
                               (''loopback_interface'', JString LOOPBACK_HOST),
                               (''port'', JNumber (Num (real PORT))),
                               (''data'', json_of_dataStore (bump st))]))] \<and>
             length (envelopes (trace x)) = 1 \<and>
             listen_hosts (trace x) = []"
  using assms by (simp add: serve_def requestListener_def Let_def res_defs)

lemma serve_404:
  assumes "req_method req \<noteq> ''OPTIONS''" "\<not> (req_method req = ''GET'' \<and> url req = ''/json'')"
    "\<not> (req_method req = ''POST'' \<and> url req = ''/json'')"
  shows "\<exists>x. serve parse req st = (None, bump st, x) \<and> statuses (trace x) = [404] \<and>
             payloads (trace x) =
               [if req_method req = ''HEAD'' then None
                else Some (JObject [(''status'', JString ''error''),
                                    (''message'', JString ''Endpoint not found'')])] \<and>
             envelopes (trace x) =
               (if req_method req = ''HEAD'' then []
                else [JObject [(''status'', JString ''error''),
                               (''message'', JString ''Endpoint not found'')]]) \<and>
             listen_hosts (trace x) = []"
  using assms by (auto simp add: serve_def requestListener_def Let_def res_defs)

lemma serve_POST:
  assumes "req_method req = ''POST''" "url req = ''/json''"
  shows "serve parse req st = deliver parse (now req) (events req) (bump st, cors ''POST'')"
  using assms by (simp add: serve_def requestListener_def Let_def cors_def)

text \<open>
  Every request, whatever events it emits: at most one response, exactly one unless the
  request is a POST to \<^verbatim>\<open>/json\<close> that neither ends nor exceeds the limit, nothing bound,
  and the counters in step with the items.
\<close>

lemma serve_shape:
  "\<exists>e st' x. serve parse req st = (e, st', x) \<and>
     length (statuses (trace x)) \<le> 1 \<and> length (payloads (trace x)) \<le> 1 \<and>
     ((req_method req \<noteq> ''POST'' \<or> url req \<noteq> ''/json'' \<or> EndEv \<in> set (events req) \<or>
       MAX_BODY_SIZE < length (concat (data_of (events req))))
        \<longrightarrow> length (statuses (trace x)) = 1 \<and> length (payloads (trace x)) = 1) \<and>
     (req_method req = ''POST'' \<and> url req = ''/json'' \<and> EndEv \<notin> set (events req) \<and>
       length (concat (data_of (events req))) \<le> MAX_BODY_SIZE
        \<longrightarrow> e = None \<and> st' = bump st \<and> statuses (trace x) = [] \<and> payloads (trace x) = []) \<and>
     (if req_method req = ''OPTIONS'' \<or> req_method req = ''HEAD'' then envelopes (trace x) = []
      else length (envelopes (trace x)) = length (payloads (trace x))) \<and>
     listen_hosts (trace x) = [] \<and>
     (typed_total (stats st) = length (filter counted (items st)) \<longrightarrow>
      typed_total (stats st') = length (filter counted (items st')))"
proof -
  consider (opt) "req_method req = ''OPTIONS''"
    | (get) "req_method req \<noteq> ''OPTIONS''" "req_method req = ''GET''" "url req = ''/json''"
    | (post) "req_method req = ''POST''" "url req = ''/json''"
    | (other) "req_method req \<noteq> ''OPTIONS''" "\<not> (req_method req = ''GET'' \<and> url req = ''/json'')"
        "\<not> (req_method req = ''POST'' \<and> url req = ''/json'')"
    by blast
  then show ?thesis
  proof cases
    case opt
    from serve_OPTIONS [OF opt, of parse st] show ?thesis using opt by (auto simp: bump_counts)
  next
    case get
    from serve_GET [OF get(2,3), of parse st] show ?thesis using get by (auto simp: bump_counts)
  next
    case post
    obtain e st' x where run: "deliver parse (now req) (events req) (bump st, cors ''POST'') = (e, st', x)"
      by (cases "deliver parse (now req) (events req) (bump st, cors ''POST'')") auto
    have c: "coherent (cors ''POST'')" by (simp add: coherent_cors)
    from deliver_coherent [OF c run] have
      x: "coherent x"
      and one: "EndEv \<in> set (events req) \<or> MAX_BODY_SIZE < length (concat (data_of (events req)))
                 \<Longrightarrow> headWritten x"
      and none: "EndEv \<notin> set (events req) \<Longrightarrow>
                 length (concat (data_of (events req))) \<le> MAX_BODY_SIZE \<Longrightarrow>
                 \<not> headWritten x \<and> e = None \<and> st' = bump st"
      and cnt: "typed_total (stats (bump st)) = length (filter counted (items (bump st))) \<Longrightarrow>
                typed_total (stats st') = length (filter counted (items st'))"
      by (simp_all add: cors_simps)
    have "serve parse req st = (e, st', x)"
      using run by (simp add: serve_POST post)
    with x one none cnt post show ?thesis
      by (auto simp: coherent_def bump_counts)
  next
    case other
    from serve_404 [OF other, of parse st] obtain x where
      "serve parse req st = (None, bump st, x)" "statuses (trace x) = [404]"
      "length (payloads (trace x)) = 1"
      "envelopes (trace x) =
         (if req_method req = ''HEAD'' then []
          else [JObject [(''status'', JString ''error''),
                         (''message'', JString ''Endpoint not found'')]])"
      "listen_hosts (trace x) = []"
      by auto
    with other show ?thesis
      by (intro exI [of _ None] exI [of _ "bump st"] exI [of _ x]) (auto simp: bump_counts)
  qed
qed

lemma serve_all_counts:
  "typed_total (stats st) = length (filter counted (items st)) \<Longrightarrow>
   \<exists>e st'. serve_all parse reqs st = (e, st') \<and>
         typed_total (stats st') = length (filter counted (items st'))"
proof (induction reqs arbitrary: st)
  case Nil
  then show ?case by simp
next
  case (Cons r rs)
  from serve_shape [of parse r st] Cons.prems obtain e1 st1 x where
    s: "serve parse r st = (e1, st1, x)"
    and k: "typed_total (stats st1) = length (filter counted (items st1))"
    by blast
  show ?case
  proof (cases e1)
    case None
    with s Cons.IH [OF k] show ?thesis by simp
  next
    case (Some err)
    with s k show ?thesis by simp
  qed
qed

text \<open>A POST to \<^verbatim>\<open>/json\<close> whose body arrives whole and within the limit.\<close>

lemma serve_POST_whole:
  assumes "req_method req = ''POST''" "url req = ''/json''"
    "events req = map DataEv cs @ [EndEv]" "length (concat cs) \<le> MAX_BODY_SIZE"
  shows "serve parse req st = on_end parse (now req) (bump st, (cors ''POST'')\<lparr>body := concat cs\<rparr>)"
proof -
  have "serve parse req st =
        deliver parse (now req) [EndEv] (bump st, (cors ''POST'')\<lparr>body := concat cs\<rparr>)"
    using assms(4) deliver_small [of "cors ''POST''" cs parse "now req" "[EndEv]" "bump st"]
    by (simp add: serve_POST assms(1,2,3) cors_simps)
  then show ?thesis
    by (cases "on_end parse (now req) (bump st, (cors ''POST'')\<lparr>body := concat cs\<rparr>)")
       (auto split: option.splits)
qed

lemma categorizeData_range:
  "categorizeData v \<in> {''text'', ''numeric'', ''array'', ''object'', ''unknown''}"
  by (cases v) (simp_all add: categorizeData_def)

lemmas run_defs = serve_def requestListener_def on_data_def on_end_def on_end_catch_def Let_def
  res_defs MAX_BODY_SIZE_def dataStore_init_def bump_def categorizeData_def json_of_item_def
  json_header_def

section \<open>Classification of a decoded value\<close>

text \<open>
  C1 (as amended). The classification function assigns \<^verbatim>\<open>text\<close> to a string,
  \<^verbatim>\<open>numeric\<close> to a number, \<^verbatim>\<open>array\<close> to an array, \<^verbatim>\<open>object\<close> to a keyed mapping
  and \<^verbatim>\<open>unknown\<close> to a boolean.
\<close>

theorem categorizeData_kinds:
  "categorizeData (JString s) = ''text'' \<and>
   categorizeData (JNumber n) = ''numeric'' \<and>
   categorizeData (JArray xs) = ''array'' \<and>
   categorizeData (JObject kvs) = ''object'' \<and>
   categorizeData (JBool b) = ''unknown''"
  by (simp add: categorizeData_def)

text \<open>
  C1 as stated fails: the kind of the number 42 is \<^verbatim>\<open>numeric\<close>, not \<^verbatim>\<open>number\<close>.
\<close>

theorem categorizeData_number_counterexample:
  "categorizeData (JNumber (Num 42)) = ''numeric'' \<and> categorizeData (JNumber (Num 42)) \<noteq> ''number''"
  by (simp add: categorizeData_def)

text \<open>
  C2. The claim is that \<^verbatim>\<open>true\<close>, \<^verbatim>\<open>false\<close> and \<^verbatim>\<open>null\<close> all get the kind
  \<^verbatim>\<open>unknown\<close>. The booleans do; \<^verbatim>\<open>null\<close> is caught by the test
  \<^verbatim>\<open>typeof data === 'object'\<close> and gets the kind \<^verbatim>\<open>object\<close>.
\<close>

theorem categorizeData_null:
  "categorizeData JNull = ''object'' \<and>
   categorizeData (JBool True) = ''unknown'' \<and>
   categorizeData (JBool False) = ''unknown''"
  by (simp add: categorizeData_def)

text \<open>
  C3. Classification looks at the whole decoded value: every object has the kind
  \<^verbatim>\<open>object\<close> whatever its fields hold (so \<^verbatim>\<open>{"value": 42}\<close> is an \<^verbatim>\<open>object\<close>, not a
  number), and every array has the kind \<^verbatim>\<open>array\<close>, never \<^verbatim>\<open>object\<close>, whatever its
  elements are.
\<close>

theorem categorizeData_whole_value:
  "categorizeData (JObject kvs) = ''object'' \<and>
   categorizeData (JObject [(''value'', JNumber (Num 42))]) = ''object'' \<and>
   categorizeData (JObject [(''value'', JNumber (Num 42))]) \<noteq> ''number'' \<and>
   categorizeData (JObject [(''value'', JNumber (Num 42))]) \<noteq> ''numeric'' \<and>
   categorizeData (JArray xs) = ''array'' \<and>
   categorizeData (JArray xs) \<noteq> ''object''"
  by (simp add: categorizeData_def)

section \<open>Responses\<close>

text \<open>
  A POST to \<^verbatim>\<open>/json\<close> whose body arrives whole, within the limit, and is not JSON is
  answered with status 400 and the envelope of the \<^verbatim>\<open>catch\<close> block; the store only
  counts the request.
\<close>

lemma parse_failure_within_limit:
  assumes "req_method req = ''POST''" "url req = ''/json''"
    "events req = map DataEv cs @ [EndEv]" "length (concat cs) \<le> MAX_BODY_SIZE"
    "parse (concat cs) = Inl m"
  shows "\<exists>x. serve parse req st = (None, bump st, x) \<and>
           statuses (trace x) = [400] \<and>
           envelopes (trace x) =
             [JObject [(''status'', JString ''error''), (''message'', JString ''Invalid JSON''),
                       (''error'', JString m)]]"
  using assms(5)
  by (simp add: serve_POST_whole [OF assms(1-4)] on_end_invalid cors_simps trace_simps)

text \<open>
  C4. The claim is that a body that fails JSON parsing is answered with an error
  envelope and never brings the server down. It does on the request below: a body of
  1048577 characters that is not JSON, whose last chunk takes it over the limit. The
  \<^verbatim>\<open>'data'\<close> listener answers 413 and destroys the connection; the \<^verbatim>\<open>'end'\<close>
  listener then runs all the same, \<^verbatim>\<open>JSON.parse\<close> throws, and in the \<^verbatim>\<open>catch\<close> block
  \<^verbatim>\<open>writeHead\<close> throws on the response already written. Nothing catches that, and the
  request that follows is not served.
\<close>

theorem parse_failure_over_limit_uncaught:
  "serve parse_table
     (req_post [DataEv (''not json'' @ replicate 1048568 (CHR '' '')), DataEv '' '', EndEv])
     dataStore_init =
     (Some ERR_HTTP_HEADERS_SENT,
      \<lparr> items = [],
        stats = \<lparr> totalRequests = 1, textItems = 0, numericItems = 0, objectItems = 0 \<rparr> \<rparr>,
      \<lparr> body = ''not json'' @ replicate 1048568 (CHR '' '') @ '' '',
        hasBody = True, headWritten = True, finished = True, destroyed = True,
        trace = [SetHeader ''Access-Control-Allow-Origin'' ''http://127.0.0.1'',
                 SetHeader ''Access-Control-Allow-Methods'' ''GET, POST, OPTIONS'',
                 SetHeader ''Access-Control-Allow-Headers'' ''Content-Type'',
                 WriteHead 413 [(''Content-Type'', ''application/json'')],
                 End (Some (JObject [(''status'', JString ''error''),
                                     (''message'', JString ''Request body too large (max 1MB)'')])),
                 Destroy] \<rparr>) \<and>
   serve_all parse_table
     [req_post [DataEv (''not json'' @ replicate 1048568 (CHR '' '')), DataEv '' '', EndEv], req_get]
     dataStore_init =
     (Some ERR_HTTP_HEADERS_SENT,
      \<lparr> items = [],
        stats = \<lparr> totalRequests = 1, textItems = 0, numericItems = 0, objectItems = 0 \<rparr> \<rparr>)"
  by (simp add: run_defs req_post_def parse_table_def)

text \<open>
  C5 (as amended). A POST to \<^verbatim>\<open>/json\<close> whose body arrives whole, has at most
  \<open>1024 * 1024\<close> characters once decoded, and parses is answered with status 201 and the
  envelope \<^verbatim>\<open>{status: 'success', message: 'JSON data stored via loopback interface', item}\<close>,
  where the item holds the next id, the kind of the decoded value (one of \<^verbatim>\<open>text\<close>,
  \<^verbatim>\<open>numeric\<close>, \<^verbatim>\<open>array\<close>, \<^verbatim>\<open>object\<close>, \<^verbatim>\<open>unknown\<close>) under \<^verbatim>\<open>type\<close>, the time
  stamp, and under \<^verbatim>\<open>data\<close> the decoded value as \<^verbatim>\<open>JSON.stringify\<close> writes it: the
  value itself, unless it holds an infinity, written \<^verbatim>\<open>null\<close>, or a negative zero,
  written \<^verbatim>\<open>0\<close>.
\<close>

theorem post_success_envelope:
  assumes "req_method req = ''POST''" "url req = ''/json''"
    "events req = map DataEv cs @ [EndEv]" "length (concat cs) \<le> MAX_BODY_SIZE"
    "parse (concat cs) = Inr v"
  shows "\<exists>st' x. serve parse req st = (None, st', x) \<and>
           statuses (trace x) = [201] \<and>
           envelopes (trace x) =
             [JObject [(''status'', JString ''success''),
                       (''message'', JString ''JSON data stored via loopback interface''),
                       (''item'', JObject [(''id'', JNumber (Num (real (length (items st) + 1)))),
                                           (''type'', JString (categorizeData v)),
                                           (''data'', stringify v),
                                           (''timestamp'', JString (now req))])]] \<and>
           categorizeData v \<in> {''text'', ''numeric'', ''array'', ''object'', ''unknown''} \<and>
           (plain v \<longrightarrow> stringify v = v)"
proof -
  let ?x = "(cors ''POST'')\<lparr>body := concat cs\<rparr>"
  have "\<not> headWritten ?x" "\<not> finished ?x" "hasBody ?x" "parse (body ?x) = Inr v"
    using assms(5) by (simp_all add: cors_simps)
  from on_end_valid [where parse = parse and ts = "now req" and st = "bump st", OF this]
  obtain st' where
    "on_end parse (now req) (bump st, ?x) =
       (None, st',
        ?x\<lparr>headWritten := True, finished := True,
           trace := trace ?x @
             [WriteHead 201 json_header,
              End (Some (JObject [(''status'', JString ''success''),
                                  (''message'', JString ''JSON data stored via loopback interface''),
                                  (''item'', JObject [(''id'', JNumber (Num (real (length (items (bump st)) + 1)))),
                                                      (''type'', JString (categorizeData v)),
                                                      (''data'', stringify v),
                                                      (''timestamp'', JString (now req))])]))]\<rparr>)"
    by blast
  then show ?thesis
    using categorizeData_range [of v] stringify_plain [of v]
    by (simp add: serve_POST_whole [OF assms(1-4)] cors_simps trace_simps bump_counts)
qed

text \<open>The object \<^verbatim>\<open>{"value": 42}\<close>, arriving in two chunks.\<close>

theorem post_success_envelope_witness:
  \<open>\<exists>st' x. serve parse_table (req_post [DataEv ''{"value"'', DataEv '': 42}'', EndEv]) dataStore_init
              = (None, st', x) \<and>
     statuses (trace x) = [201] \<and>
     envelopes (trace x) =
       [JObject [(''status'', JString ''success''),
                 (''message'', JString ''JSON data stored via loopback interface''),
                 (''item'', JObject [(''id'', JNumber (Num 1)),
                                     (''type'', JString ''object''),
                                     (''data'', JObject [(''value'', JNumber (Num 42))]),
                                     (''timestamp'', JString ''2026-01-01T00:00:00.000Z'')])]]\<close>
proof -
  let ?r = \<open>req_post [DataEv ''{"value"'', DataEv '': 42}'', EndEv]\<close>
  have h: \<open>req_method ?r = ''POST''\<close> \<open>url ?r = ''/json''\<close>
    \<open>events ?r = map DataEv [''{"value"'', '': 42}''] @ [EndEv]\<close>
    \<open>length (concat [''{"value"'', '': 42}'']) \<le> MAX_BODY_SIZE\<close>
    \<open>parse_table (concat [''{"value"'', '': 42}'']) = Inr (JObject [(''value'', JNumber (Num 42))])\<close>
    by (simp_all add: req_post_def parse_table_def MAX_BODY_SIZE_def)
  from post_success_envelope [where parse = parse_table and st = dataStore_init, OF h]
  show ?thesis
    by (simp add: categorizeData_def dataStore_init_def req_post_def)
qed

text \<open>
  C5 as stated fails: for the body \<^verbatim>\<open>"hello"\<close> the envelope is not
  \<^verbatim>\<open>{"status": "ok", "kind": "text", "value": "hello"}\<close>; its status is
  \<^verbatim>\<open>success\<close> and it has no field \<^verbatim>\<open>kind\<close> and no field \<^verbatim>\<open>value\<close>. And the
  decoded value is not always echoed unchanged: the body \<^verbatim>\<open>1e400\<close> decodes to
  \<^verbatim>\<open>Infinity\<close> and comes back as \<^verbatim>\<open>null\<close>, the body \<^verbatim>\<open>-0\<close> comes back as
  \<^verbatim>\<open>0\<close>.
\<close>

theorem post_success_envelope_counterexample:
  \<open>envelopes (trace (snd (snd
      (serve parse_table (req_post [DataEv ''"hello"'', EndEv]) dataStore_init)))) =
     [JObject [(''status'', JString ''success''),
               (''message'', JString ''JSON data stored via loopback interface''),
               (''item'', JObject [(''id'', JNumber (Num 1)),
                                   (''type'', JString ''text''),
                                   (''data'', JString ''hello''),
                                   (''timestamp'', JString ''2026-01-01T00:00:00.000Z'')])]] \<and>
   envelopes (trace (snd (snd
      (serve parse_table (req_post [DataEv ''"hello"'', EndEv]) dataStore_init)))) \<noteq>
     [JObject [(''status'', JString ''ok''), (''kind'', JString ''text''),
               (''value'', JString ''hello'')]] \<and>
   map (field ''status'') (envelopes (trace (snd (snd
      (serve parse_table (req_post [DataEv ''"hello"'', EndEv]) dataStore_init))))) =
     [Some (JString ''success'')] \<and>
   map (field ''kind'') (envelopes (trace (snd (snd
      (serve parse_table (req_post [DataEv ''"hello"'', EndEv]) dataStore_init))))) = [None] \<and>
   map (field ''value'') (envelopes (trace (snd (snd
      (serve parse_table (req_post [DataEv ''"hello"'', EndEv]) dataStore_init))))) = [None] \<and>
   parse_table ''1e400'' = Inr (JNumber PosInfinity) \<and>
   envelopes (trace (snd (snd
      (serve parse_table (req_post [DataEv ''1e400'', EndEv]) dataStore_init)))) =
     [JObject [(''status'', JString ''success''),
               (''message'', JString ''JSON data stored via loopback interface''),
               (''item'', JObject [(''id'', JNumber (Num 1)),
                                   (''type'', JString ''numeric''),
                                   (''data'', JNull),
                                   (''timestamp'', JString ''2026-01-01T00:00:00.000Z'')])]] \<and>
   parse_table ''-0'' = Inr (JNumber NegZero) \<and>
   envelopes (trace (snd (snd
      (serve parse_table (req_post [DataEv ''-0'', EndEv]) dataStore_init)))) =
     [JObject [(''status'', JString ''success''),
               (''message'', JString ''JSON data stored via loopback interface''),
               (''item'', JObject [(''id'', JNumber (Num 1)),
                                   (''type'', JString ''numeric''),
                                   (''data'', JNumber (Num 0)),
                                   (''timestamp'', JString ''2026-01-01T00:00:00.000Z'')])]]\<close>
  by (simp add: run_defs req_post_def parse_table_def)

text \<open>
  C6. The script binds one socket, on the constant host 127.0.0.1, and serving a request
  binds none, whatever the request and however its handling ends.
\<close>

theorem binds_loopback_only:
  "LOOPBACK_HOST = ''127.0.0.1'' \<and>
   listen_hosts main_script = [''127.0.0.1''] \<and>
   listen_hosts (trace (snd (snd (serve parse req st)))) = []"
  using serve_shape [of parse req st] by (auto simp: main_script_def LOOPBACK_HOST_def)

text \<open>
  C7 (as amended). No request is answered more than once, on any path and whatever
  events it emits. A request is answered exactly once on every path other than the POST
  to \<^verbatim>\<open>/json\<close>, and on that path as soon as the \<^verbatim>\<open>'end'\<close> event is emitted or the
  accumulated body exceeds the limit; a POST to \<^verbatim>\<open>/json\<close> whose body stops short of
  both is not answered. The response carries one JSON envelope, except for the OPTIONS
  and HEAD requests, whose responses have an empty body.
\<close>

theorem one_response_per_request:
  "\<exists>e st' x. serve parse req st = (e, st', x) \<and>
     length (statuses (trace x)) \<le> 1 \<and> length (payloads (trace x)) \<le> 1 \<and>
     ((req_method req \<noteq> ''POST'' \<or> url req \<noteq> ''/json'' \<or> EndEv \<in> set (events req) \<or>
       MAX_BODY_SIZE < length (concat (data_of (events req))))
        \<longrightarrow> length (statuses (trace x)) = 1 \<and> length (payloads (trace x)) = 1) \<and>
     (req_method req = ''POST'' \<and> url req = ''/json'' \<and> EndEv \<notin> set (events req) \<and>
       length (concat (data_of (events req))) \<le> MAX_BODY_SIZE
        \<longrightarrow> statuses (trace x) = [] \<and> payloads (trace x) = []) \<and>
     (if req_method req = ''OPTIONS'' \<or> req_method req = ''HEAD'' then envelopes (trace x) = []
      else length (envelopes (trace x)) = length (payloads (trace x)))"
proof -
  from serve_shape [of parse req st] obtain e st' x where
    "serve parse req st = (e, st', x)"
    "length (statuses (trace x)) \<le> 1" "length (payloads (trace x)) \<le> 1"
    "(req_method req \<noteq> ''POST'' \<or> url req \<noteq> ''/json'' \<or> EndEv \<in> set (events req) \<or>
       MAX_BODY_SIZE < length (concat (data_of (events req))))
        \<longrightarrow> length (statuses (trace x)) = 1 \<and> length (payloads (trace x)) = 1"
    "req_method req = ''POST'' \<and> url req = ''/json'' \<and> EndEv \<notin> set (events req) \<and>
       length (concat (data_of (events req))) \<le> MAX_BODY_SIZE
        \<longrightarrow> e = None \<and> st' = bump st \<and> statuses (trace x) = [] \<and> payloads (trace x) = []"
    "if req_method req = ''OPTIONS'' \<or> req_method req = ''HEAD'' then envelopes (trace x) = []
      else length (envelopes (trace x)) = length (payloads (trace x))"
    by blast
  then show ?thesis
    by (intro exI [of _ e] exI [of _ st'] exI [of _ x]) simp
qed

text \<open>
  A body that is not JSON and exceeds the limit with its last chunk: one response, the
  413, although the handling ends in an exception.
\<close>

theorem one_response_per_request_witness:
  "\<exists>e st' x.
     serve parse_table
       (req_post [DataEv (''not json'' @ replicate 1048568 (CHR '' '')), DataEv '' '', EndEv])
       dataStore_init = (e, st', x) \<and>
     length (statuses (trace x)) = 1 \<and> length (payloads (trace x)) = 1 \<and>
     length (envelopes (trace x)) = 1"
  using one_response_per_request [of parse_table
      "req_post [DataEv (''not json'' @ replicate 1048568 (CHR '' '')), DataEv '' '', EndEv]"
      dataStore_init]
  by (simp add: req_post_def) metis

text \<open>
  C7 as stated fails: the OPTIONS response and the HEAD response are completed with no
  body, so no envelope is sent, and a POST to \<^verbatim>\<open>/json\<close> whose body does not end gets no
  response at all.
\<close>

theorem response_envelope_counterexample:
  "envelopes (trace (snd (snd (serve parse_table req_options dataStore_init)))) = [] \<and>
   payloads (trace (snd (snd (serve parse_table req_options dataStore_init)))) = [None] \<and>
   envelopes (trace (snd (snd (serve parse_table req_head dataStore_init)))) = [] \<and>
   payloads (trace (snd (snd (serve parse_table req_head dataStore_init)))) = [None] \<and>
   payloads (trace (snd (snd (serve parse_table (req_post [DataEv ''42'']) dataStore_init)))) = []"
  by (simp add: run_defs req_options_def req_head_def req_post_def parse_table_def)

text \<open>
  C8. The claim is that a POST whose accumulated body exceeds the limit is answered with
  413, has its connection destroyed, and stores no item. On the request below (the body
  is \<^verbatim>\<open>42\<close> followed by 1048575 spaces, and its last chunk takes it over the limit) the
  413 is sent and the connection destroyed, but the \<^verbatim>\<open>'end'\<close> listener then runs all
  the same: it parses the body, stores the item, counts it, and ends in the exception
  that \<^verbatim>\<open>writeHead\<close> throws on the response already written.
\<close>

theorem oversized_body_item_stored:
  "serve parse_table
     (req_post [DataEv (''42'' @ replicate 1048574 (CHR '' '')), DataEv '' '', EndEv])
     dataStore_init =
     (Some ERR_HTTP_HEADERS_SENT,
      \<lparr> items = [\<lparr> item_id = 1, item_type = ''numeric'', item_data = JNumber (Num 42),
                    item_timestamp = ''2026-01-01T00:00:00.000Z'' \<rparr>],
        stats = \<lparr> totalRequests = 1, textItems = 0, numericItems = 1, objectItems = 0 \<rparr> \<rparr>,
      \<lparr> body = ''42'' @ replicate 1048574 (CHR '' '') @ '' '',
        hasBody = True, headWritten = True, finished = True, destroyed = True,
        trace = [SetHeader ''Access-Control-Allow-Origin'' ''http://127.0.0.1'',
                 SetHeader ''Access-Control-Allow-Methods'' ''GET, POST, OPTIONS'',
                 SetHeader ''Access-Control-Allow-Headers'' ''Content-Type'',
                 WriteHead 413 [(''Content-Type'', ''application/json'')],
                 End (Some (JObject [(''status'', JString ''error''),
                                     (''message'', JString ''Request body too large (max 1MB)'')])),
                 Destroy] \<rparr>)"
proof -
  have pad: "replicate 1048574 (CHR '' '') @ '' '' = replicate 1048575 (CHR '' '')"
    using replicate_add [of 1048574 1 "CHR '' ''"] by simp
  show ?thesis
    by (simp add: run_defs req_post_def parse_table_def pad)
qed

section \<open>The store\<close>

text \<open>
  C9. After every sequence of requests served from the initial store, the three type
  counters add up to at most the number of stored items, and to strictly less as soon as
  an item of kind \<^verbatim>\<open>array\<close> or \<^verbatim>\<open>unknown\<close> is stored: the counters count exactly the
  items of the other three kinds. This holds of the store at the end of the sequence and
  of the store at an uncaught exception alike.
\<close>

theorem type_counters_bounded:
  "\<exists>e st. serve_all parse reqs dataStore_init = (e, st) \<and>
     textItems (stats st) + numericItems (stats st) + objectItems (stats st) \<le> length (items st) \<and>
     ((\<exists>it \<in> set (items st). item_type it = ''array'' \<or> item_type it = ''unknown'') \<longrightarrow>
        textItems (stats st) + numericItems (stats st) + objectItems (stats st) < length (items st)) \<and>
     textItems (stats st) + numericItems (stats st) + objectItems (stats st) =
       length (filter counted (items st))"
proof -
  have "typed_total (stats dataStore_init) = length (filter counted (items dataStore_init))"
    by (simp add: dataStore_init_def typed_total_def)
  from serve_all_counts [OF this, of parse reqs] obtain e st where
    st: "serve_all parse reqs dataStore_init = (e, st)"
      "typed_total (stats st) = length (filter counted (items st))"
    by blast
  have strict: "typed_total (stats st) < length (items st)"
    if "it \<in> set (items st)" "item_type it = ''array'' \<or> item_type it = ''unknown''" for it
  proof -
    from that(2) have "\<not> counted it" by (auto simp: counted_def)
    with that(1) have "length (filter counted (items st)) < length (items st)"
      by (rule length_filter_less)
    with st(2) show ?thesis by simp
  qed
  from st strict show ?thesis
    by (auto simp: typed_total_def)
qed

text \<open>An array, then a number: two items, one of them counted.\<close>

theorem type_counters_bounded_witness:
  "\<exists>e st. serve_all parse_table
       [req_post [DataEv ''[1,2,3]'', EndEv], req_post [DataEv ''42'', EndEv]] dataStore_init = (e, st) \<and>
     map item_type (items st) = [''array'', ''numeric''] \<and>
     textItems (stats st) + numericItems (stats st) + objectItems (stats st) = 1 \<and>
     textItems (stats st) + numericItems (stats st) + objectItems (stats st) < length (items st)"
proof -
  have run: "serve_all parse_table
       [req_post [DataEv ''[1,2,3]'', EndEv], req_post [DataEv ''42'', EndEv]] dataStore_init =
     (None,
      \<lparr> items = [\<lparr> item_id = 1, item_type = ''array'',
                    item_data = JArray [JNumber (Num 1), JNumber (Num 2), JNumber (Num 3)],
                    item_timestamp = ''2026-01-01T00:00:00.000Z'' \<rparr>,
                  \<lparr> item_id = 2, item_type = ''numeric'', item_data = JNumber (Num 42),
                    item_timestamp = ''2026-01-01T00:00:00.000Z'' \<rparr>],
        stats = \<lparr> totalRequests = 2, textItems = 0, numericItems = 1, objectItems = 0 \<rparr> \<rparr>)"
    by (simp add: run_defs req_post_def parse_table_def)
  from type_counters_bounded [of parse_table
      "[req_post [DataEv ''[1,2,3]'', EndEv], req_post [DataEv ''42'', EndEv]]"] run
  show ?thesis
    by simp
qed

text \<open>
  C10. A GET of \<^verbatim>\<open>/json\<close> leaves the stored items and the three type counters as they
  were; the store afterwards is the store before with \<^verbatim>\<open>totalRequests\<close> incremented.
\<close>

theorem get_json_frame:
  assumes "req_method req = ''GET''" "url req = ''/json''"
  shows "\<exists>st' x. serve parse req st = (None, st', x) \<and>
           items st' = items st \<and>
           textItems (stats st') = textItems (stats st) \<and>
           numericItems (stats st') = numericItems (stats st) \<and>
           objectItems (stats st') = objectItems (stats st) \<and>
           st' = st\<lparr>stats := (stats st)\<lparr>totalRequests := totalRequests (stats st) + 1\<rparr>\<rparr>"
  using serve_GET [OF assms, of parse st] by (auto simp: bump_def)

text \<open>A GET on the initial store.\<close>

theorem get_json_frame_witness:
  "\<exists>x. serve parse_table req_get dataStore_init =
     (None,
      \<lparr> items = [],
        stats = \<lparr> totalRequests = 1, textItems = 0, numericItems = 0, objectItems = 0 \<rparr> \<rparr>, x)"
proof -
  have h: "req_method req_get = ''GET''" "url req_get = ''/json''"
    by (simp_all add: req_get_def)
  from get_json_frame [OF h, of parse_table dataStore_init] show ?thesis
    by (auto simp: dataStore_init_def)
qed

end
